theory Spec2Isabelle
  imports Main "HOL-Library.Char_ord" "HOL-Library.List_Lexorder" "HOL-Library.Multiset"
begin

section \<open>JavaScript values\<close>

text \<open>
  The values that travel between the adapter (\<^verbatim>\<open>todo_mcp_server/index.ts\<close>) and the REST
  service (\<^verbatim>\<open>todo_server/todo_server.ts\<close>) are JSON values.  A JavaScript value that may
  be \<^verbatim>\<open>undefined\<close> is a \<open>json option\<close>, with \<open>None\<close> for \<^verbatim>\<open>undefined\<close>.

  A number is an integer, \<open>JNum n\<close>, or a decimal fraction, \<open>JFrac m k\<close> for
  \<open>m / 10 ^ k\<close>.  Scope of the model: numbers are exact (no IEEE rounding, no 64-bit
  ceiling), a fraction is written in plain decimal notation (which is how JavaScript and
  SQLite write one of up to 15 significant digits between 0.0001 and \<open>10 ^ 15\<close>), and
  a string is a list of 8-bit characters.  An object is an association list; the order of
  its keys carries no meaning.
\<close>

datatype json =
    JNull
  | JBool bool
  | JNum int
  | JFrac int nat
  | JStr string
  | JArr "json list"
  | JObj "(string \<times> json) list"

type_synonym jsval = "json option"

type_synonym obj = "(string \<times> json) list"

text \<open>Decimal rendering of a number, as \<^verbatim>\<open>String(n)\<close> and a template literal do.\<close>

function digits10 :: "int \<Rightarrow> string" where
  "digits10 n =
     (if n < 10 then [char_of (48 + n)]
      else digits10 (n div 10) @ [char_of (48 + n mod 10)])"
  by pat_completeness auto
termination
  by (relation "measure nat") auto

declare digits10.simps [simp del]

definition String_nat :: "nat \<Rightarrow> string" where
  "String_nat n = digits10 (int n)"

definition String_int :: "int \<Rightarrow> string" where
  "String_int i = (if i < 0 then CHR ''-'' # digits10 (- i) else digits10 i)"

text \<open>
  A decimal \<open>m / 10 ^ k\<close> without its trailing zeros, and its text: an integer when no
  fraction digit is left, else the digits with the point \<open>k\<close> places from the end.
\<close>

fun normalize :: "int \<Rightarrow> nat \<Rightarrow> int \<times> nat" where
  "normalize m 0 = (m, 0)"
| "normalize m (Suc k) = (if m mod 10 = 0 then normalize (m div 10) k else (m, Suc k))"

definition decimal_text :: "int \<Rightarrow> nat \<Rightarrow> string" where
  "decimal_text m k =
     (let ds = digits10 \<bar>m\<bar>;
          padded = replicate (Suc k - length ds) CHR ''0'' @ ds
      in (if m < 0 then ''-'' else []) @ take (length padded - k) padded @ ''.'' @
         drop (length padded - k) padded)"

definition number_text :: "int \<Rightarrow> nat \<Rightarrow> string" where
  "number_text m k =
     (case normalize m k of
        (n, 0) \<Rightarrow> String_int n
      | (m', Suc k') \<Rightarrow> decimal_text m' (Suc k'))"

fun intercalate :: "string \<Rightarrow> string list \<Rightarrow> string" where
  "intercalate sep [] = []"
| "intercalate sep [x] = x"
| "intercalate sep (x # y # ys) = x @ sep @ intercalate sep (y # ys)"

text \<open>
  \<^verbatim>\<open>String(v)\<close> and \<^verbatim>\<open>`${v}`\<close> on a value parsed from JSON.  An array joins its elements
  with commas, \<^verbatim>\<open>null\<close> elements giving the empty string.
\<close>

fun ToString :: "json \<Rightarrow> string" where
  "ToString JNull = ''null''"
| "ToString (JBool b) = (if b then ''true'' else ''false'')"
| "ToString (JNum n) = String_int n"
| "ToString (JFrac m k) = number_text m k"
| "ToString (JStr s) = s"
| "ToString (JArr xs) =
     intercalate '','' (map (\<lambda>x. if x = JNull then [] else ToString x) xs)"
| "ToString (JObj kvs) = ''[object Object]''"

definition String_js :: "jsval \<Rightarrow> string" where
  "String_js v = (case v of None \<Rightarrow> ''undefined'' | Some j \<Rightarrow> ToString j)"

text \<open>Truthiness, as \<^verbatim>\<open>!v\<close> and \<^verbatim>\<open>v ? a : b\<close> test it.\<close>

fun truthy :: "jsval \<Rightarrow> bool" where
  "truthy None = False"
| "truthy (Some JNull) = False"
| "truthy (Some (JBool b)) = b"
| "truthy (Some (JNum n)) = (n \<noteq> 0)"
| "truthy (Some (JFrac m k)) = (m \<noteq> 0)"
| "truthy (Some (JStr s)) = (s \<noteq> [])"
| "truthy (Some (JArr xs)) = True"
| "truthy (Some (JObj kvs)) = True"

text \<open>\<^verbatim>\<open>a ?? b\<close>: the left operand unless it is \<^verbatim>\<open>null\<close> or \<^verbatim>\<open>undefined\<close>.\<close>

fun nullish :: "jsval \<Rightarrow> json \<Rightarrow> json" where
  "nullish None d = d"
| "nullish (Some JNull) d = d"
| "nullish (Some v) d = v"

text \<open>Assignment of a property: an existing key keeps its place, a new key is appended.\<close>

fun set_prop :: "obj \<Rightarrow> string \<Rightarrow> json \<Rightarrow> obj" where
  "set_prop [] k v = [(k, v)]"
| "set_prop ((k', v') # kvs) k v =
     (if k' = k then (k, v) # kvs else (k', v') # set_prop kvs k v)"

text \<open>Object spread \<^verbatim>\<open>{...target, ...source}\<close>.\<close>

definition spread :: "obj \<Rightarrow> obj \<Rightarrow> obj" where
  "spread target source = foldl (\<lambda>acc (k, v). set_prop acc k v) target source"

text \<open>
  An object literal whose property values may be \<^verbatim>\<open>undefined\<close>, after \<^verbatim>\<open>JSON.stringify\<close>:
  the undefined properties are dropped.
\<close>

fun stringify_obj :: "(string \<times> jsval) list \<Rightarrow> obj" where
  "stringify_obj [] = []"
| "stringify_obj ((k, None) # kvs) = stringify_obj kvs"
| "stringify_obj ((k, Some v) # kvs) = (k, v) # stringify_obj kvs"

subsection \<open>\<^verbatim>\<open>JSON.stringify\<close> to text\<close>

definition hex_digit :: "nat \<Rightarrow> char" where
  "hex_digit d = (if d < 10 then char_of (48 + d) else char_of (87 + d))"

definition quote_char :: "char \<Rightarrow> string" where
  "quote_char c =
     (let n = (of_char c :: nat) in
      if n = 34 then [CHR 0x5C, CHR 0x22]
      else if n = 92 then [CHR 0x5C, CHR 0x5C]
      else if n = 8 then [CHR 0x5C, CHR ''b'']
      else if n = 12 then [CHR 0x5C, CHR ''f'']
      else if n = 10 then [CHR 0x5C, CHR ''n'']
      else if n = 13 then [CHR 0x5C, CHR ''r'']
      else if n = 9 then [CHR 0x5C, CHR ''t'']
      else if n < 32 then [CHR 0x5C, CHR ''u'', CHR ''0'', CHR ''0'',
                           hex_digit (n div 16), hex_digit (n mod 16)]
      else [c])"

definition quote :: "string \<Rightarrow> string" where
  "quote s = CHR 0x22 # concat (map quote_char s) @ [CHR 0x22]"

fun JSON_stringify :: "json \<Rightarrow> string" where
  "JSON_stringify JNull = ''null''"
| "JSON_stringify (JBool b) = (if b then ''true'' else ''false'')"
| "JSON_stringify (JNum n) = String_int n"
| "JSON_stringify (JFrac m k) = number_text m k"
| "JSON_stringify (JStr s) = quote s"
| "JSON_stringify (JArr xs) = ''['' @ intercalate '','' (map JSON_stringify xs) @ '']''"
| "JSON_stringify (JObj kvs) =
     ''{'' @ intercalate '','' (map (\<lambda>(k, v). quote k @ '':'' @ JSON_stringify v) kvs) @ ''}''"


section \<open>The store\<close>

text \<open>
  The service keeps one SQLite table, created by
  \<^verbatim>\<open>CREATE TABLE IF NOT EXISTS todos (id INTEGER PRIMARY KEY AUTOINCREMENT,
  task TEXT NOT NULL, completed BOOLEAN NOT NULL DEFAULT 0,
  created_at TIMESTAMP DEFAULT CURRENT_TIMESTAMP)\<close>.
  SQLite has the storage classes NULL, INTEGER, REAL, TEXT and BLOB and no boolean: the
  column type \<^verbatim>\<open>BOOLEAN\<close> has NUMERIC affinity (its declared default is the integer 0).
  \<open>SReal m k\<close> is the REAL \<open>m / 10 ^ k\<close>.  BLOB does not occur in the model.
\<close>

datatype sqlval = SNull | SInt int | SReal int nat | SText string

text \<open>
  A row of \<^verbatim>\<open>todos\<close>.  \<open>task\<close> is \<^verbatim>\<open>TEXT NOT NULL\<close>, so it always holds a text;
  \<open>created_at\<close> is only ever written by its default \<^verbatim>\<open>CURRENT_TIMESTAMP\<close>, a text.
\<close>

record todo_row =
  id_col :: int
  task :: string
  completed :: sqlval
  created_at :: string

text \<open>
  The database: the rows in table order and the counter that \<^verbatim>\<open>AUTOINCREMENT\<close> keeps in
  \<^verbatim>\<open>sqlite_sequence\<close> (the largest row id ever handed out).
\<close>

record database =
  rows :: "todo_row list"
  seq :: int

definition empty_db :: database where
  "empty_db = \<lparr>rows = [], seq = 0\<rparr>"

text \<open>\<^verbatim>\<open>PRIMARY KEY\<close>: no two rows share an id.\<close>

definition primary_key :: "database \<Rightarrow> bool" where
  "primary_key d = distinct (map id_col (rows d))"

text \<open>
  How the driver binds a JavaScript value to a \<^verbatim>\<open>?\<close> of a statement: a string as TEXT, a
  boolean as INTEGER (1 and 0), a number as INTEGER when it is an integer of 32 bits and
  as REAL otherwise, \<^verbatim>\<open>null\<close> as NULL, an array or an object as the TEXT
  \<^verbatim>\<open>[object Object]\<close>; \<^verbatim>\<open>undefined\<close> is not bound at all, and an unbound parameter is
  NULL.
\<close>

definition bind_number :: "int \<Rightarrow> nat \<Rightarrow> sqlval" where
  "bind_number m k =
     (case normalize m k of
        (n, 0) \<Rightarrow> if - 2147483648 \<le> n \<and> n \<le> 2147483647 then SInt n else SReal n 0
      | (m', Suc k') \<Rightarrow> SReal m' (Suc k'))"

fun BindParameter :: "jsval \<Rightarrow> sqlval" where
  "BindParameter None = SNull"
| "BindParameter (Some JNull) = SNull"
| "BindParameter (Some (JBool b)) = SInt (if b then 1 else 0)"
| "BindParameter (Some (JNum n)) = bind_number n 0"
| "BindParameter (Some (JFrac m k)) = bind_number m k"
| "BindParameter (Some (JStr s)) = SText s"
| "BindParameter (Some (JArr xs)) = SText ''[object Object]''"
| "BindParameter (Some (JObj kvs)) = SText ''[object Object]''"

text \<open>
  TEXT affinity of column \<open>task\<close>: a number is stored as its decimal text, a REAL
  always with a fraction part.
\<close>

fun text_affinity :: "sqlval \<Rightarrow> string option" where
  "text_affinity SNull = None"
| "text_affinity (SInt n) = Some (String_int n)"
| "text_affinity (SReal m k) =
     Some (case normalize m k of
             (n, 0) \<Rightarrow> String_int n @ ''.0''
           | (m', Suc k') \<Rightarrow> decimal_text m' (Suc k'))"
| "text_affinity (SText s) = Some s"

text \<open>
  NUMERIC affinity of column \<open>completed\<close>.  A text that is a well-formed number (blanks
  around it allowed; an optional sign, digits with an optional point, an optional
  exponent; no hexadecimal) is stored as that number, any other text stays a text.  A
  number whose value is an integer is stored as INTEGER, any other as REAL.
\<close>

definition is_space :: "char \<Rightarrow> bool" where
  "is_space c = (of_char c \<in> {9, 10, 11, 12, 13, 32 :: nat})"

definition is_digit :: "char \<Rightarrow> bool" where
  "is_digit c = (48 \<le> (of_char c :: nat) \<and> (of_char c :: nat) \<le> 57)"

definition trim :: "string \<Rightarrow> string" where
  "trim s = rev (dropWhile is_space (rev (dropWhile is_space s)))"

definition digits_value :: "string \<Rightarrow> nat" where
  "digits_value s = foldl (\<lambda>a c. 10 * a + (of_char c - 48)) 0 s"

text \<open>A leading sign: whether it is a minus, and the rest of the text.\<close>

fun sign_of :: "string \<Rightarrow> bool \<times> string" where
  "sign_of [] = (False, [])"
| "sign_of (c # cs) =
     (if c = CHR ''-'' then (True, cs) else if c = CHR ''+'' then (False, cs)
      else (False, c # cs))"

text \<open>The exponent part of a number, empty or \<^verbatim>\<open>e\<close> with an optional sign and digits.\<close>

definition exponent_of :: "string \<Rightarrow> int option" where
  "exponent_of s =
     (case s of
        [] \<Rightarrow> Some 0
      | c # cs \<Rightarrow>
          if c = CHR ''e'' \<or> c = CHR ''E'' then
            (case sign_of cs of
               (neg, ds) \<Rightarrow>
                 if ds \<noteq> [] \<and> list_all is_digit ds
                 then Some (if neg then - int (digits_value ds) else int (digits_value ds))
                 else None)
          else None)"

text \<open>A well-formed number as a mantissa \<open>m\<close> and an exponent \<open>e\<close>, for \<open>m * 10 ^ e\<close>.\<close>

definition numeric_literal :: "string \<Rightarrow> (int \<times> int) option" where
  "numeric_literal s =
     (case sign_of (trim s) of
        (neg, t) \<Rightarrow>
          let whole = takeWhile is_digit t;
              rest = dropWhile is_digit t;
              frac = (case rest of
                        [] \<Rightarrow> []
                      | c # cs \<Rightarrow> if c = CHR ''.'' then takeWhile is_digit cs else []);
              rest' = (case rest of
                         [] \<Rightarrow> []
                       | c # cs \<Rightarrow> if c = CHR ''.'' then dropWhile is_digit cs else rest);
              m = int (digits_value (whole @ frac))
          in if whole = [] \<and> frac = [] then None
             else (case exponent_of rest' of
                     None \<Rightarrow> None
                   | Some e \<Rightarrow> Some (if neg then - m else m, e - int (length frac))))"

definition store_number :: "int \<Rightarrow> int \<Rightarrow> sqlval" where
  "store_number m e =
     (if 0 \<le> e then SInt (m * 10 ^ nat e)
      else (case normalize m (nat (- e)) of
              (n, 0) \<Rightarrow> SInt n
            | (m', Suc k') \<Rightarrow> SReal m' (Suc k')))"

fun numeric_affinity :: "sqlval \<Rightarrow> sqlval" where
  "numeric_affinity SNull = SNull"
| "numeric_affinity (SInt n) = SInt n"
| "numeric_affinity (SReal m k) = store_number m (- int k)"
| "numeric_affinity (SText s) =
     (case numeric_literal s of Some (m, e) \<Rightarrow> store_number m e | None \<Rightarrow> SText s)"

text \<open>\<^verbatim>\<open>COALESCE(x, y)\<close>: the first argument that is not NULL.\<close>

fun COALESCE :: "sqlval \<Rightarrow> sqlval \<Rightarrow> sqlval" where
  "COALESCE SNull y = y"
| "COALESCE x y = x"

text \<open>
  A JavaScript number used as a row id: \<open>Some n\<close> for the integer \<open>n\<close>, \<open>None\<close> for
  \<^verbatim>\<open>NaN\<close> and for a number that is not an integer.  \<^verbatim>\<open>WHERE id = ?\<close> holds for a row
  exactly when the number is that row's id.
\<close>

type_synonym number = "int option"

definition WHERE_id :: "number \<Rightarrow> todo_row \<Rightarrow> bool" where
  "WHERE_id n r = (n = Some (id_col r))"

text \<open>What \<^verbatim>\<open>db.run\<close> resolves to, and the error a rejected promise carries.\<close>

record run_result =
  lastID :: "int option"
  changes :: "nat option"

datatype js_error = Error string

text \<open>The next row id: one more than the largest ever used.\<close>

definition next_rowid :: "database \<Rightarrow> int" where
  "next_rowid d = fold max (map id_col (rows d)) (seq d) + 1"

text \<open>
  \<^verbatim>\<open>INSERT INTO todos (task, completed) VALUES (?, ?)\<close>; \<open>now\<close> is the value of
  \<^verbatim>\<open>CURRENT_TIMESTAMP\<close> when the statement runs.  A failed statement changes nothing.
\<close>

definition INSERT_todos ::
  "database \<Rightarrow> string \<Rightarrow> sqlval \<Rightarrow> sqlval \<Rightarrow> (js_error + run_result) \<times> database" where
  "INSERT_todos d now p1 p2 =
     (case text_affinity p1 of
        None \<Rightarrow>
          (Inl (Error ''SQLITE_CONSTRAINT: NOT NULL constraint failed: todos.task''), d)
      | Some t \<Rightarrow>
          if numeric_affinity p2 = SNull then
            (Inl (Error ''SQLITE_CONSTRAINT: NOT NULL constraint failed: todos.completed''), d)
          else
            let i = next_rowid d in
            (Inr \<lparr>lastID = Some i, changes = Some 1\<rparr>,
             \<lparr>rows = rows d @
                [\<lparr>id_col = i, task = t, completed = numeric_affinity p2, created_at = now\<rparr>],
              seq = i\<rparr>))"

text \<open>
  \<^verbatim>\<open>UPDATE todos set task = COALESCE(?, task), completed = COALESCE(?, completed)
  WHERE id = ?\<close>.  The column affinity acts on the bound value; a value already stored
  has it.
\<close>

definition UPDATE_row :: "sqlval \<Rightarrow> sqlval \<Rightarrow> todo_row \<Rightarrow> todo_row" where
  "UPDATE_row p1 p2 r =
     r\<lparr>task := (case text_affinity p1 of None \<Rightarrow> task r | Some t \<Rightarrow> t),
       completed := COALESCE (numeric_affinity p2) (completed r)\<rparr>"

definition UPDATE_todos ::
  "database \<Rightarrow> sqlval \<Rightarrow> sqlval \<Rightarrow> number \<Rightarrow> (js_error + run_result) \<times> database" where
  "UPDATE_todos d p1 p2 n =
     (Inr \<lparr>lastID = None, changes = Some (length (filter (WHERE_id n) (rows d)))\<rparr>,
      d\<lparr>rows := map (\<lambda>r. if WHERE_id n r then UPDATE_row p1 p2 r else r) (rows d)\<rparr>)"

text \<open>\<^verbatim>\<open>DELETE FROM todos WHERE id = ?\<close>.\<close>

definition DELETE_todos :: "database \<Rightarrow> number \<Rightarrow> (js_error + run_result) \<times> database" where
  "DELETE_todos d n =
     (Inr \<lparr>lastID = None, changes = Some (length (filter (WHERE_id n) (rows d)))\<rparr>,
      d\<lparr>rows := filter (\<lambda>r. \<not> WHERE_id n r) (rows d)\<rparr>)"

text \<open>
  \<^verbatim>\<open>SELECT * FROM todos ORDER BY created_at DESC\<close>: texts compare byte by byte, and rows
  with equal keys come in table order, the older row first.
\<close>

definition SELECT_all :: "database \<Rightarrow> js_error + todo_row list" where
  "SELECT_all d = Inr (rev (sort_key created_at (rev (rows d))))"

text \<open>\<^verbatim>\<open>SELECT * FROM todos WHERE id = ?\<close>, first row only (\<^verbatim>\<open>db.get\<close>).\<close>

definition SELECT_by_id :: "database \<Rightarrow> number \<Rightarrow> js_error + todo_row option" where
  "SELECT_by_id d n = Inr (find (WHERE_id n) (rows d))"

text \<open>
  A row as the driver hands it to JavaScript: INTEGER and REAL as a number, TEXT as a
  string.
\<close>

fun sql_json :: "sqlval \<Rightarrow> json" where
  "sql_json SNull = JNull"
| "sql_json (SInt n) = JNum n"
| "sql_json (SReal m k) =
     (case normalize m k of (n, 0) \<Rightarrow> JNum n | (m', Suc k') \<Rightarrow> JFrac m' (Suc k'))"
| "sql_json (SText s) = JStr s"

definition row_json :: "todo_row \<Rightarrow> json" where
  "row_json r =
     JObj [(''id'', JNum (id_col r)), (''task'', JStr (task r)),
           (''completed'', sql_json (completed r)), (''created_at'', JStr (created_at r))]"


section \<open>The REST service\<close>

text \<open>
  An HTTP response: the status code, the reason phrase that goes with it on the status
  line, and the body.  \<open>Json j\<close> is a body whose text is the JSON text of \<open>j\<close>;
  \<open>Plain s\<close> is a body whose text \<open>s\<close> is not JSON.
\<close>

datatype payload = Json json | Plain string

record response =
  status :: nat
  statusText :: string
  body :: payload

definition STATUS_CODES :: "nat \<Rightarrow> string" where
  "STATUS_CODES c =
     (if c = 200 then ''OK''
      else if c = 201 then ''Created''
      else if c = 400 then ''Bad Request''
      else if c = 404 then ''Not Found''
      else if c = 500 then ''Internal Server Error''
      else [])"

text \<open>\<^verbatim>\<open>res.status(c).json(v)\<close>, \<^verbatim>\<open>res.json(v)\<close> and \<^verbatim>\<open>res.status(c).send(text)\<close>.\<close>

definition res_status_json :: "nat \<Rightarrow> json \<Rightarrow> response" where
  "res_status_json c v = \<lparr>status = c, statusText = STATUS_CODES c, body = Json v\<rparr>"

definition res_json :: "json \<Rightarrow> response" where
  "res_json v = res_status_json 200 v"

definition res_status_send :: "nat \<Rightarrow> string \<Rightarrow> response" where
  "res_status_send c s = \<lparr>status = c, statusText = STATUS_CODES c, body = Plain s\<rparr>"

text \<open>
  The route parameter \<^verbatim>\<open>req.params['id']\<close>: its text, and the number that
  \<^verbatim>\<open>Number(req.params['id'])\<close> makes of it.  The request body \<^verbatim>\<open>req.body\<close> is the
  object that \<^verbatim>\<open>express.json()\<close> has parsed, an \<open>obj\<close> whose keys are distinct.
\<close>

record id_param =
  raw :: string
  Number_of :: number

subsection \<open>API logic functions\<close>

definition getAllTodos :: "database \<Rightarrow> js_error + todo_row list" where
  "getAllTodos d = SELECT_all d"

definition getTodoById :: "database \<Rightarrow> number \<Rightarrow> js_error + todo_row option" where
  "getTodoById d n = SELECT_by_id d n"

text \<open>
  \<open>now\<close> is the store's \<^verbatim>\<open>CURRENT_TIMESTAMP\<close>, \<open>stamp\<close> is what
  \<^verbatim>\<open>new Date().toISOString()\<close> returns in the service.
\<close>

definition createTodo ::
  "database \<Rightarrow> string \<Rightarrow> string \<Rightarrow> obj \<Rightarrow> (js_error + obj) \<times> database" where
  "createTodo d now stamp data =
     (let c = nullish (map_of data ''completed'') (JBool False) in
      case INSERT_todos d now (BindParameter (map_of data ''task'')) (BindParameter (Some c)) of
        (Inl e, d') \<Rightarrow> (Inl e, d')
      | (Inr result, d') \<Rightarrow>
          (case lastID result of
             None \<Rightarrow> (Inl (Error ''Unable to create task''), d')
           | Some i \<Rightarrow>
               (Inr (set_prop (set_prop (spread [(''id'', JNum i)] data) ''completed'' c)
                       ''created_at'' (JStr stamp)),
                d')))"

definition updateTodo ::
  "database \<Rightarrow> number \<Rightarrow> obj \<Rightarrow> (js_error + nat \<times> obj) \<times> database" where
  "updateTodo d n data =
     (case UPDATE_todos d (BindParameter (map_of data ''task''))
             (BindParameter (map_of data ''completed'')) n of
        (Inl e, d') \<Rightarrow> (Inl e, d')
      | (Inr result, d') \<Rightarrow>
          (Inr (case changes result of None \<Rightarrow> 0 | Some c \<Rightarrow> c, data), d'))"

definition deleteTodo :: "database \<Rightarrow> number \<Rightarrow> (js_error + nat) \<times> database" where
  "deleteTodo d n =
     (case DELETE_todos d n of
        (Inl e, d') \<Rightarrow> (Inl e, d')
      | (Inr result, d') \<Rightarrow> (Inr (case changes result of None \<Rightarrow> 0 | Some c \<Rightarrow> c), d'))"

subsection \<open>API routes\<close>

definition error_json :: "js_error \<Rightarrow> json" where
  "error_json e = (case e of Error m \<Rightarrow> JObj [(''error'', JStr m)])"

definition app_get_todos :: "database \<Rightarrow> response" where
  "app_get_todos d =
     (case getAllTodos d of
        Inl e \<Rightarrow> res_status_json 500 (error_json e)
      | Inr rs \<Rightarrow>
          res_json (JObj [(''message'', JStr ''success''), (''data'', JArr (map row_json rs))]))"

definition app_get_todos_id :: "database \<Rightarrow> id_param \<Rightarrow> response" where
  "app_get_todos_id d p =
     (case getTodoById d (Number_of p) of
        Inl e \<Rightarrow> res_status_json 500 (error_json e)
      | Inr (Some row) \<Rightarrow>
          res_json (JObj [(''message'', JStr ''success''), (''data'', row_json row)])
      | Inr None \<Rightarrow>
          res_status_json 404 (JObj [(''message'', JStr ''No to-do found with that ID.'')]))"

definition app_post_todos ::
  "database \<Rightarrow> string \<Rightarrow> string \<Rightarrow> obj \<Rightarrow> response \<times> database" where
  "app_post_todos d now stamp req_body =
     (if \<not> truthy (map_of req_body ''task'') then
        (res_status_json 400
           (JObj [(''error'', JStr (''Missing '' @ [CHR 0x27] @ ''task'' @ [CHR 0x27] @
                                     '' field in request body.''))]), d)
      else
        case createTodo d now stamp req_body of
          (Inl e, d') \<Rightarrow> (res_status_json 500 (error_json e), d')
        | (Inr result, d') \<Rightarrow>
            (res_status_json 201
               (JObj [(''message'', JStr ''success''), (''data'', JObj result)]), d'))"

definition app_put_todos_id ::
  "database \<Rightarrow> id_param \<Rightarrow> obj \<Rightarrow> response \<times> database" where
  "app_put_todos_id d p req_body =
     (case updateTodo d (Number_of p) req_body of
        (Inl e, d') \<Rightarrow> (res_status_json 500 (error_json e), d')
      | (Inr (n, _), d') \<Rightarrow>
          if n = 0 then
            (res_status_json 404
               (JObj [(''message'', JStr (''No to-do found with ID '' @ raw p))]), d')
          else
            (case getTodoById d' (Number_of p) of
               Inl e \<Rightarrow> (res_status_json 500 (error_json e), d')
             | Inr row \<Rightarrow>
                 (res_json
                    (JObj (stringify_obj
                       [(''message'', Some (JStr ''success'')),
                        (''data'', map_option row_json row),
                        (''changes'', Some (JNum (int n)))])), d')))"

definition app_delete_todos_id :: "database \<Rightarrow> id_param \<Rightarrow> response \<times> database" where
  "app_delete_todos_id d p =
     (case deleteTodo d (Number_of p) of
        (Inl e, d') \<Rightarrow> (res_status_json 500 (error_json e), d')
      | (Inr n, d') \<Rightarrow>
          if n = 0 then
            (res_status_json 404
               (JObj [(''message'', JStr (''No to-do found with ID '' @ raw p))]), d')
          else
            (res_json (JObj [(''message'', JStr ''deleted''), (''changes'', JNum (int n))]), d'))"

definition app_not_found :: response where
  "app_not_found = res_status_send 404 ''404: Page not found''"

section \<open>The protocol adapter\<close>

text \<open>
  What a tool callback can throw: \<^verbatim>\<open>new Error(message)\<close> from the status check, the
  \<^verbatim>\<open>SyntaxError\<close> of parsing a body that is not JSON, and the \<^verbatim>\<open>TypeError\<close> of reading a
  property of \<^verbatim>\<open>null\<close> or \<^verbatim>\<open>undefined\<close> or calling what is not a function.
\<close>

datatype thrown = Failure string | SyntaxError | TypeError

text \<open>
  The items of a tool result.  A link carries its uri, name and description; the mime
  type and the annotations are the same constants in every item and are left out.
\<close>

datatype content =
    Text_content string
  | Resource_link (uri: string) (name: string) (description: jsval)

text \<open>\<^verbatim>\<open>res.ok\<close>, \<^verbatim>\<open>res.json()\<close> (also \<^verbatim>\<open>JSON.parse(await res.text())\<close>).\<close>

definition ok :: "response \<Rightarrow> bool" where
  "ok r = (200 \<le> status r \<and> status r \<le> 299)"

definition parse_body :: "response \<Rightarrow> thrown + json" where
  "parse_body r = (case body r of Json j \<Rightarrow> Inr j | Plain s \<Rightarrow> Inl SyntaxError)"

text \<open>
  Reading one of the properties \<^verbatim>\<open>data\<close>, \<^verbatim>\<open>id\<close>, \<^verbatim>\<open>task\<close> of a value: an object has it
  or not, a number, string, boolean or array has not, \<^verbatim>\<open>null\<close> and \<^verbatim>\<open>undefined\<close> throw.
\<close>

fun member :: "jsval \<Rightarrow> string \<Rightarrow> thrown + jsval" where
  "member None k = Inl TypeError"
| "member (Some JNull) k = Inl TypeError"
| "member (Some (JObj kvs)) k = Inr (map_of kvs k)"
| "member (Some v) k = Inr None"

text \<open>The status check of the update and delete tools.\<close>

definition check_status :: "response \<Rightarrow> thrown + response" where
  "check_status r =
     (if ok r then Inr r
      else if status r \<ge> 500 then
        Inl (Failure (''Bad response - '' @ String_nat (status r) @ '' - '' @ statusText r))
      else
        Inl (Failure (''Bad request - '' @ String_nat (status r) @ '' - '' @ statusText r)))"

subsection \<open>What each tool makes of the response\<close>

definition list_link :: "json \<Rightarrow> thrown + content" where
  "list_link item =
     (case member (Some item) ''id'' of
        Inl e \<Rightarrow> Inl e
      | Inr i \<Rightarrow>
          (case member (Some item) ''task'' of
             Inl e \<Rightarrow> Inl e
           | Inr t \<Rightarrow>
               Inr (Resource_link (''todo://item/'' @ String_js i) (String_js i)
                      (map_option (\<lambda>v. JStr (JSON_stringify v)) t))))"

fun list_links :: "json list \<Rightarrow> thrown + content list" where
  "list_links [] = Inr []"
| "list_links (item # items) =
     (case list_link item of
        Inl e \<Rightarrow> Inl e
      | Inr l \<Rightarrow> (case list_links items of Inl e \<Rightarrow> Inl e | Inr ls \<Rightarrow> Inr (l # ls)))"

definition list_result :: "response \<Rightarrow> thrown + content list" where
  "list_result r =
     (case parse_body r of
        Inl e \<Rightarrow> Inl e
      | Inr j \<Rightarrow>
          (case member (Some j) ''data'' of
             Inl e \<Rightarrow> Inl e
           | Inr (Some (JArr items)) \<Rightarrow>
               (case list_links items of
                  Inl e \<Rightarrow> Inl e
                | Inr ls \<Rightarrow>
                    Inr (Text_content (''Found '' @ String_nat (length items) @ '' items'') # ls))
           | Inr _ \<Rightarrow> Inl TypeError))"

definition get_result :: "int \<Rightarrow> response \<Rightarrow> thrown + content list" where
  "get_result i r =
     (case parse_body r of
        Inl e \<Rightarrow> Inl e
      | Inr j \<Rightarrow>
          (case member (Some j) ''data'' of
             Inl e \<Rightarrow> Inl e
           | Inr data \<Rightarrow>
               (case member data ''task'' of
                  Inl e \<Rightarrow> Inl e
                | Inr t \<Rightarrow>
                    Inr [Text_content ''found todo item'',
                         Resource_link (''todo://item/'' @ String_int i) (String_int i) t])))"

definition update_result :: "response \<Rightarrow> thrown + jsval" where
  "update_result r =
     (case check_status r of
        Inl e \<Rightarrow> Inl e
      | Inr r' \<Rightarrow>
          (case parse_body r' of Inl e \<Rightarrow> Inl e | Inr j \<Rightarrow> member (Some j) ''data''))"

definition add_result :: "string \<Rightarrow> response \<Rightarrow> thrown + content list" where
  "add_result t r =
     (case parse_body r of
        Inl e \<Rightarrow> Inl e
      | Inr j \<Rightarrow>
          (case member (Some j) ''data'' of
             Inl e \<Rightarrow> Inl e
           | Inr data \<Rightarrow>
               (case member data ''id'' of
                  Inl e \<Rightarrow> Inl e
                | Inr i \<Rightarrow>
                    Inr [Resource_link (''todo://item/'' @ String_js i) (String_js i)
                           (Some (JStr t))])))"

definition delete_result :: "response \<Rightarrow> thrown + content list" where
  "delete_result r =
     (case check_status r of
        Inl e \<Rightarrow> Inl e
      | Inr r' \<Rightarrow>
          (case parse_body r' of
             Inl e \<Rightarrow> Inl e
           | Inr j \<Rightarrow> Inr [Text_content ''deleted successfully'']))"

subsection \<open>The tools, each with its one request to the service\<close>

text \<open>
  The path \<^verbatim>\<open>`/todos/${id}`\<close> of a request, as the service's route reads it back.  The
  tools' \<^verbatim>\<open>id\<close> input is taken to be an integer.
\<close>

definition path_id :: "int \<Rightarrow> id_param" where
  "path_id i = \<lparr>raw = String_int i, Number_of = Some i\<rparr>"

definition list_tool :: "database \<Rightarrow> thrown + content list" where
  "list_tool d = list_result (app_get_todos d)"

definition get_tool :: "database \<Rightarrow> int \<Rightarrow> thrown + content list" where
  "get_tool d i = get_result i (app_get_todos_id d (path_id i))"

definition update_body :: "string option \<Rightarrow> bool option \<Rightarrow> obj" where
  "update_body t c =
     stringify_obj
       [(''task'', Some (case t of None \<Rightarrow> JNull | Some s \<Rightarrow> if length s \<noteq> 0 then JStr s else JNull)),
        (''completed'', map_option JBool c)]"

definition update_tool ::
  "database \<Rightarrow> int \<Rightarrow> string option \<Rightarrow> bool option \<Rightarrow> (thrown + jsval) \<times> database" where
  "update_tool d i t c =
     (case app_put_todos_id d (path_id i) (update_body t c) of
        (r, d') \<Rightarrow> (update_result r, d'))"

definition add_tool ::
  "database \<Rightarrow> string \<Rightarrow> string \<Rightarrow> string \<Rightarrow> (thrown + content list) \<times> database" where
  "add_tool d now stamp t =
     (case app_post_todos d now stamp (stringify_obj [(''task'', Some (JStr t))]) of
        (r, d') \<Rightarrow> (add_result t r, d'))"

definition delete_tool :: "database \<Rightarrow> int \<Rightarrow> (thrown + content list) \<times> database" where
  "delete_tool d i =
     (case app_delete_todos_id d (path_id i) of (r, d') \<Rightarrow> (delete_result r, d'))"

text \<open>The resource \<^verbatim>\<open>todo://all\<close>: the text of its one content item.\<close>

definition resource_all :: "database \<Rightarrow> thrown + string" where
  "resource_all d =
     (case parse_body (app_get_todos d) of Inl e \<Rightarrow> Inl e | Inr j \<Rightarrow> Inr (JSON_stringify j))"


section \<open>Reading a response\<close>

text \<open>
  The top-level fields of a JSON response and the fields of its \<^verbatim>\<open>data\<close> object; used
  only to state what a response says.
\<close>

definition body_field :: "response \<Rightarrow> string \<Rightarrow> jsval" where
  "body_field r k = (case body r of Json (JObj kvs) \<Rightarrow> map_of kvs k | _ \<Rightarrow> None)"

definition data_field :: "response \<Rightarrow> string \<Rightarrow> jsval" where
  "data_field r k =
     (case body_field r ''data'' of Some (JObj kvs) \<Rightarrow> map_of kvs k | _ \<Rightarrow> None)"

text \<open>Concrete inputs for the examples.\<close>

definition sample_row :: todo_row where
  "sample_row = \<lparr>id_col = 1, task = ''buy milk'', completed = SInt 0,
                  created_at = ''2024-01-01 00:00:00''\<rparr>"

definition sample_db :: database where
  "sample_db = \<lparr>rows = [sample_row], seq = 1\<rparr>"

definition later_row :: todo_row where
  "later_row = \<lparr>id_col = 2, task = ''walk'', completed = SInt 1,
                 created_at = ''2024-01-02 10:00:00''\<rparr>"

definition two_db :: database where
  "two_db = \<lparr>rows = [sample_row, later_row], seq = 2\<rparr>"

definition unavailable :: response where
  "unavailable = \<lparr>status = 503, statusText = ''Service Unavailable'',
                   body = Plain ''no healthy upstream''\<rparr>"

section \<open>Facts about the store\<close>

lemma fold_max_ge: "(a::int) \<le> fold max xs a"
  by (induction xs arbitrary: a) (auto intro: order_trans [OF max.cobounded2])

lemma fold_max_mem: "x \<in> set xs \<Longrightarrow> (x::int) \<le> fold max xs a"
proof (induction xs arbitrary: a)
  case Nil
  then show ?case by simp
next
  case (Cons y ys)
  show ?case
  proof (cases "x = y")
    case True
    have "max y a \<le> fold max ys (max y a)" by (rule fold_max_ge)
    with True show ?thesis by simp
  next
    case False
    with Cons show ?thesis by simp
  qed
qed

lemma next_rowid_fresh: "r \<in> set (rows d) \<Longrightarrow> id_col r < next_rowid d"
  unfolding next_rowid_def using fold_max_mem [of "id_col r" "map id_col (rows d)" "seq d"]
  by simp

lemma no_match_filter:
  "\<not> (\<exists>r \<in> set xs. n = Some (id_col r)) \<Longrightarrow> filter (WHERE_id n) xs = []"
  by (induction xs) (auto simp: WHERE_id_def)

lemma no_match_map:
  "\<not> (\<exists>r \<in> set xs. n = Some (id_col r)) \<Longrightarrow>
   map (\<lambda>r. if WHERE_id n r then f r else r) xs = xs"
  by (induction xs) (auto simp: WHERE_id_def)

lemma no_match_keep:
  "\<not> (\<exists>r \<in> set xs. n = Some (id_col r)) \<Longrightarrow> filter (\<lambda>r. \<not> WHERE_id n r) xs = xs"
  by (induction xs) (auto simp: WHERE_id_def)

lemma WHERE_id_Some: "WHERE_id (Some i) r = (id_col r = i)"
  by (auto simp: WHERE_id_def)

lemma find_map_update:
  "(\<And>r. id_col (f r) = id_col r) \<Longrightarrow>
   find (WHERE_id n) (map (\<lambda>r. if WHERE_id n r then f r else r) xs) =
   map_option f (find (WHERE_id n) xs)"
  by (induction xs) (auto simp: WHERE_id_def)

lemma find_Some_filter: "find P xs = Some r \<Longrightarrow> filter P xs \<noteq> []"
  by (induction xs) (auto split: if_splits)

lemma id_col_UPDATE_row: "id_col (UPDATE_row p1 p2 r) = id_col r"
  by (simp add: UPDATE_row_def)

lemma distinct_filter_one:
  "distinct (map id_col xs) \<Longrightarrow> i \<in> id_col ` set xs \<Longrightarrow>
   length (filter (WHERE_id (Some i)) xs) = 1"
proof (induction xs)
  case Nil
  then show ?case by simp
next
  case (Cons x xs)
  show ?case
  proof (cases "id_col x = i")
    case True
    with Cons.prems have "\<not> (\<exists>r \<in> set xs. Some i = Some (id_col r))" by auto
    then have "filter (WHERE_id (Some i)) xs = []" by (rule no_match_filter)
    moreover from True have "WHERE_id (Some i) x" by (simp add: WHERE_id_def)
    ultimately show ?thesis by simp
  next
    case False
    with Cons show ?thesis by (auto simp: WHERE_id_def)
  qed
qed

lemma filter_then_no_match: "filter (WHERE_id n) (filter (\<lambda>r. \<not> WHERE_id n r) xs) = []"
  by (induction xs) auto

lemma find_append_fresh:
  "\<forall>r \<in> set xs. id_col r \<noteq> id_col x \<Longrightarrow>
   find (WHERE_id (Some (id_col x))) (xs @ [x]) = Some x"
  by (induction xs) (auto simp: WHERE_id_def)

lemma find_new_row:
  "find (WHERE_id (Some (next_rowid d)))
     (rows d @ [\<lparr>id_col = next_rowid d, task = t, completed = c, created_at = now\<rparr>]) =
   Some \<lparr>id_col = next_rowid d, task = t, completed = c, created_at = now\<rparr>"
proof -
  let ?x = "\<lparr>id_col = next_rowid d, task = t, completed = c, created_at = now\<rparr>"
  have "\<forall>r \<in> set (rows d). id_col r \<noteq> id_col ?x"
  proof
    fix r assume "r \<in> set (rows d)"
    then have "id_col r < next_rowid d" by (rule next_rowid_fresh)
    then show "id_col r \<noteq> id_col ?x" by simp
  qed
  from find_append_fresh [OF this] show ?thesis by simp
qed

lemma bind_number_text: "\<exists>t. text_affinity (bind_number m k) = Some t"
  by (simp add: bind_number_def split: prod.splits nat.splits)

lemma bind_number_not_SNull: "bind_number m k \<noteq> SNull"
  by (simp add: bind_number_def split: prod.splits nat.splits)

lemma store_number_not_SNull: "store_number m e \<noteq> SNull"
  by (simp add: store_number_def split: prod.splits nat.splits)

lemma truthy_text: "truthy v \<Longrightarrow> \<exists>t. text_affinity (BindParameter v) = Some t"
  by (induction v rule: truthy.induct) (simp_all add: bind_number_text)

lemma numeric_affinity_SNull: "numeric_affinity x = SNull \<longleftrightarrow> x = SNull"
  by (cases x) (simp_all add: store_number_not_SNull split: option.splits)

lemma BindParameter_nullish: "BindParameter (Some (nullish v (JBool False))) \<noteq> SNull"
  by (induction v "JBool False" rule: nullish.induct) (simp_all add: bind_number_not_SNull)

text \<open>The primary key is kept by every statement, so it holds in every reachable state.\<close>

lemma primary_key_empty: "primary_key empty_db"
  by (simp add: primary_key_def empty_db_def)

lemma primary_key_INSERT: "primary_key d \<Longrightarrow> primary_key (snd (INSERT_todos d now p1 p2))"
proof -
  assume pk: "primary_key d"
  have "next_rowid d \<notin> id_col ` set (rows d)"
    using next_rowid_fresh [of _ d] by force
  with pk show ?thesis
    by (auto simp: INSERT_todos_def primary_key_def Let_def split: option.splits)
qed

lemma primary_key_UPDATE: "primary_key d \<Longrightarrow> primary_key (snd (UPDATE_todos d p1 p2 n))"
proof -
  have "id_col \<circ> (\<lambda>r. if WHERE_id n r then UPDATE_row p1 p2 r else r) = id_col"
    by (auto simp: fun_eq_iff id_col_UPDATE_row)
  then show "primary_key d \<Longrightarrow> primary_key (snd (UPDATE_todos d p1 p2 n))"
    by (simp add: UPDATE_todos_def primary_key_def)
qed

lemma primary_key_DELETE: "primary_key d \<Longrightarrow> primary_key (snd (DELETE_todos d n))"
  by (simp add: DELETE_todos_def primary_key_def distinct_map_filter)

section \<open>Facts about objects and texts\<close>

lemma map_of_set_prop:
  "map_of (set_prop kvs k v) k' = (if k' = k then Some v else map_of kvs k')"
  by (induction kvs k v rule: set_prop.induct) auto

lemma map_of_spread:
  "distinct (map fst src) \<Longrightarrow>
   map_of (spread tgt src) k = (case map_of src k of Some v \<Rightarrow> Some v | None \<Rightarrow> map_of tgt k)"
proof (induction src arbitrary: tgt)
  case Nil
  then show ?case by (simp add: spread_def)
next
  case (Cons a src)
  obtain k1 v1 where a: "a = (k1, v1)" by (cases a)
  from Cons.prems a have d: "distinct (map fst src)" and n: "map_of src k1 = None"
    by (auto simp: map_of_eq_None_iff)
  have "spread tgt (a # src) = spread (set_prop tgt k1 v1) src"
    by (simp add: spread_def a)
  then show ?case
    using Cons.IH [OF d, of "set_prop tgt k1 v1"] n
    by (auto simp: a map_of_set_prop split: option.splits)
qed

lemma length_quote_char: "1 \<le> length (quote_char c)"
  by (simp add: quote_char_def Let_def)

lemma length_concat_quote: "length s \<le> length (concat (map quote_char s))"
proof (induction s)
  case Nil
  then show ?case by simp
next
  case (Cons c s)
  with length_quote_char [of c] show ?case by simp
qed

lemma quote_neq: "quote s \<noteq> s"
proof
  assume "quote s = s"
  then have "length (quote s) = length s" by simp
  with length_concat_quote [of s] show False by (simp add: quote_def)
qed

section \<open>Facts about the routes\<close>

lemma snd_app_put_todos_id:
  "snd (app_put_todos_id d p req_body) =
     d\<lparr>rows := map (\<lambda>r. if WHERE_id (Number_of p) r
                            then UPDATE_row (BindParameter (map_of req_body ''task''))
                                   (BindParameter (map_of req_body ''completed'')) r
                            else r) (rows d)\<rparr>"
  by (simp add: app_put_todos_id_def updateTodo_def UPDATE_todos_def getTodoById_def
      SELECT_by_id_def)

lemma post_task_only:
  assumes "T \<noteq> []"
  shows "app_post_todos d now stamp [(''task'', JStr T)] =
     (res_status_json 201
        (JObj [(''message'', JStr ''success''),
               (''data'', JObj [(''id'', JNum (next_rowid d)), (''task'', JStr T),
                                (''completed'', JBool False), (''created_at'', JStr stamp)])]),
      \<lparr>rows = rows d @
         [\<lparr>id_col = next_rowid d, task = T, completed = SInt 0, created_at = now\<rparr>],
       seq = next_rowid d\<rparr>)"
  using assms
  by (simp add: app_post_todos_def createTodo_def INSERT_todos_def spread_def Let_def)

lemma get_new_row:
  "app_get_todos_id
     \<lparr>rows = rows d @ [\<lparr>id_col = next_rowid d, task = t, completed = c, created_at = now\<rparr>],
      seq = s\<rparr> (path_id (next_rowid d)) =
   res_json (JObj [(''message'', JStr ''success''),
     (''data'', row_json \<lparr>id_col = next_rowid d, task = t, completed = c, created_at = now\<rparr>)])"
  by (simp add: app_get_todos_id_def getTodoById_def SELECT_by_id_def path_id_def find_new_row)

lemma createTodo_truthy:
  assumes "truthy (map_of data ''task'')"
  shows "\<exists>t. createTodo d now stamp data =
     (Inr (set_prop (set_prop (spread [(''id'', JNum (next_rowid d))] data) ''completed''
             (nullish (map_of data ''completed'') (JBool False))) ''created_at'' (JStr stamp)),
      \<lparr>rows = rows d @
         [\<lparr>id_col = next_rowid d, task = t,
           completed = numeric_affinity
             (BindParameter (Some (nullish (map_of data ''completed'') (JBool False)))),
           created_at = now\<rparr>],
       seq = next_rowid d\<rparr>)"
proof -
  from truthy_text [OF assms] obtain t
    where t: "text_affinity (BindParameter (map_of data ''task'')) = Some t" ..
  show ?thesis
    by (rule exI [of _ t])
      (simp add: createTodo_def INSERT_todos_def Let_def t numeric_affinity_SNull
        BindParameter_nullish)
qed

lemma app_get_todos_eq:
  "app_get_todos d =
     res_json (JObj [(''message'', JStr ''success''),
                     (''data'', JArr (map row_json (rev (sort_key created_at (rev (rows d))))))])"
  by (simp add: app_get_todos_def getAllTodos_def SELECT_all_def)

section \<open>Facts about the adapter\<close>

lemma update_body_empty: "update_body (Some []) c = update_body None c"
  by (simp add: update_body_def)

lemma check_status_not_ok:
  "\<not> ok r \<Longrightarrow>
   check_status r =
     Inl (Failure ((if 500 \<le> status r then ''Bad response'' else ''Bad request'') @
            '' - '' @ String_nat (status r) @ '' - '' @ statusText r))"
  by (simp add: check_status_def)

lemma update_delete_classified:
  "\<not> ok r \<Longrightarrow>
   update_result r =
     Inl (Failure ((if 500 \<le> status r then ''Bad response'' else ''Bad request'') @
            '' - '' @ String_nat (status r) @ '' - '' @ statusText r)) \<and>
   delete_result r =
     Inl (Failure ((if 500 \<le> status r then ''Bad response'' else ''Bad request'') @
            '' - '' @ String_nat (status r) @ '' - '' @ statusText r))"
  by (simp add: update_result_def delete_result_def check_status_not_ok)

lemma member_not_Failure: "member v k \<noteq> Inl (Failure m)"
  by (induction v k rule: member.induct) simp_all

lemma member_cases: "member v k = Inl TypeError \<or> (\<exists>x. member v k = Inr x)"
  by (induction v k rule: member.induct) simp_all

lemma list_link_not_Failure: "list_link item \<noteq> Inl (Failure m)"
  using member_cases [of "Some item" "''id''"] member_cases [of "Some item" "''task''"]
  by (auto simp: list_link_def)

lemma list_links_not_Failure: "list_links items \<noteq> Inl (Failure m)"
proof (induction items)
  case Nil
  then show ?case by simp
next
  case (Cons a items)
  then show ?case
    using list_link_not_Failure [of a m]
    by (auto split: sum.splits)
qed

lemma list_result_not_Failure: "list_result r \<noteq> Inl (Failure m)"
  using list_links_not_Failure [of _ m] member_not_Failure [of _ _ m]
  by (auto simp: list_result_def parse_body_def
      split: payload.splits sum.splits option.splits json.splits)

lemma get_result_not_Failure: "get_result i r \<noteq> Inl (Failure m)"
  using member_not_Failure [of _ _ m]
  by (auto simp: get_result_def parse_body_def split: payload.splits sum.splits)

lemma add_result_not_Failure: "add_result t r \<noteq> Inl (Failure m)"
  using member_not_Failure [of _ _ m]
  by (auto simp: add_result_def parse_body_def split: payload.splits sum.splits)

lemma plain_body_SyntaxError:
  "body r = Plain s \<Longrightarrow>
   list_result r = Inl SyntaxError \<and> get_result i r = Inl SyntaxError \<and>
   add_result t r = Inl SyntaxError"
  by (simp add: list_result_def get_result_def add_result_def parse_body_def)

lemma no_data_TypeError:
  "body r = Json (JObj kvs) \<Longrightarrow> map_of kvs ''data'' = None \<Longrightarrow>
   list_result r = Inl TypeError \<and> get_result i r = Inl TypeError \<and>
   add_result t r = Inl TypeError"
  by (simp add: list_result_def get_result_def add_result_def parse_body_def)

lemma get_tool_not_ok:
  "\<not> ok (app_get_todos_id d (path_id i)) \<Longrightarrow> get_tool d i = Inl TypeError"
  by (auto simp: get_tool_def app_get_todos_id_def getTodoById_def SELECT_by_id_def
      res_json_def res_status_json_def ok_def get_result_def parse_body_def
      split: option.splits)

lemma add_tool_not_ok:
  "\<not> ok (fst (app_post_todos d now stamp (stringify_obj [(''task'', Some (JStr t))]))) \<Longrightarrow>
   fst (add_tool d now stamp t) = Inl TypeError"
  by (auto simp: add_tool_def app_post_todos_def createTodo_def INSERT_todos_def Let_def
      res_status_json_def ok_def add_result_def parse_body_def error_json_def
      split: option.splits prod.splits sum.splits if_splits)

lemma list_link_row:
  "list_link (row_json r) =
     Inr (Resource_link (''todo://item/'' @ String_int (id_col r)) (String_int (id_col r))
            (Some (JStr (quote (task r)))))"
  by (simp add: list_link_def row_json_def String_js_def)

lemma list_links_rows:
  "list_links (map row_json rs) =
     Inr (map (\<lambda>r. Resource_link (''todo://item/'' @ String_int (id_col r))
                      (String_int (id_col r)) (Some (JStr (quote (task r))))) rs)"
  by (induction rs) (simp_all add: list_link_row)

lemma list_tool_eq:
  "list_tool d =
     Inr (Text_content (''Found '' @ String_nat (length (rows d)) @ '' items'') #
          map (\<lambda>r. Resource_link (''todo://item/'' @ String_int (id_col r))
                      (String_int (id_col r)) (Some (JStr (quote (task r)))))
            (rev (sort_key created_at (rev (rows d)))))"
  by (simp add: list_tool_def app_get_todos_eq list_result_def parse_body_def res_json_def
      res_status_json_def list_links_rows)

text \<open>
  What the service and the adapter do when a non-empty task text \<open>T\<close> is added and the
  new id is then read: the row comes back with the text \<open>T\<close>, and with the integer 0 in
  \<^verbatim>\<open>completed\<close>, as stored.
\<close>

lemma post_then_get_row:
  assumes "T \<noteq> []"
  shows "status (fst (app_post_todos d now stamp [(''task'', JStr T)])) = 201 \<and>
         data_field (fst (app_post_todos d now stamp [(''task'', JStr T)])) ''id'' =
           Some (JNum (next_rowid d)) \<and>
         status (app_get_todos_id (snd (app_post_todos d now stamp [(''task'', JStr T)]))
                   (path_id (next_rowid d))) = 200 \<and>
         data_field (app_get_todos_id (snd (app_post_todos d now stamp [(''task'', JStr T)]))
                       (path_id (next_rowid d))) ''task'' = Some (JStr T) \<and>
         data_field (app_get_todos_id (snd (app_post_todos d now stamp [(''task'', JStr T)]))
                       (path_id (next_rowid d))) ''completed'' = Some (JNum 0) \<and>
         fst (add_tool d now stamp T) =
           Inr [Resource_link (''todo://item/'' @ String_int (next_rowid d))
                  (String_int (next_rowid d)) (Some (JStr T))] \<and>
         get_tool (snd (add_tool d now stamp T)) (next_rowid d) =
           Inr [Text_content ''found todo item'',
                Resource_link (''todo://item/'' @ String_int (next_rowid d))
                  (String_int (next_rowid d)) (Some (JStr T))]"
proof -
  note post = post_task_only [OF assms, of d now stamp]
  have add: "add_tool d now stamp T =
     (Inr [Resource_link (''todo://item/'' @ String_int (next_rowid d))
                  (String_int (next_rowid d)) (Some (JStr T))],
      \<lparr>rows = rows d @
         [\<lparr>id_col = next_rowid d, task = T, completed = SInt 0, created_at = now\<rparr>],
       seq = next_rowid d\<rparr>)"
    by (simp add: add_tool_def post add_result_def parse_body_def res_status_json_def
        String_js_def)
  show ?thesis
    unfolding post add fst_conv snd_conv get_tool_def get_new_row
    by (simp add: res_status_json_def res_json_def data_field_def body_field_def row_json_def
        get_result_def parse_body_def)
qed

section \<open>The claims\<close>

subsection \<open>C1: a field the PUT body omits keeps its column\<close>

text \<open>
  C1.  For an id that has a row, \<^verbatim>\<open>PUT /todos/:id\<close> answers 200, the row is still there
  afterwards, and a field the body omits leaves its column as it was: without \<^verbatim>\<open>task\<close> in
  the body the task text is the prior one, without \<^verbatim>\<open>completed\<close> the completed value is
  the prior one.
\<close>

theorem put_omitted_field_unchanged:
  assumes "getTodoById d (Number_of p) = Inr (Some r)"
  shows "status (fst (app_put_todos_id d p req_body)) = 200 \<and>
         (\<exists>r'. getTodoById (snd (app_put_todos_id d p req_body)) (Number_of p) = Inr (Some r') \<and>
           (map_of req_body ''task'' = None \<longrightarrow> task r' = task r) \<and>
           (map_of req_body ''completed'' = None \<longrightarrow> completed r' = completed r))"
proof -
  let ?p1 = "BindParameter (map_of req_body ''task'')"
  let ?p2 = "BindParameter (map_of req_body ''completed'')"
  let ?n = "Number_of p"
  from assms have f: "find (WHERE_id ?n) (rows d) = Some r"
    by (simp add: getTodoById_def SELECT_by_id_def)
  then have ne: "filter (WHERE_id ?n) (rows d) \<noteq> []" by (rule find_Some_filter)
  have f': "find (WHERE_id ?n)
              (map (\<lambda>r. if WHERE_id ?n r then UPDATE_row ?p1 ?p2 r else r) (rows d)) =
            Some (UPDATE_row ?p1 ?p2 r)"
    using f by (simp add: find_map_update id_col_UPDATE_row)
  have st: "status (fst (app_put_todos_id d p req_body)) = 200"
    using ne by (simp add: app_put_todos_id_def updateTodo_def UPDATE_todos_def getTodoById_def
        SELECT_by_id_def res_json_def res_status_json_def)
  have g: "getTodoById (snd (app_put_todos_id d p req_body)) ?n =
           Inr (Some (UPDATE_row ?p1 ?p2 r))"
    unfolding snd_app_put_todos_id using f' by (simp add: getTodoById_def SELECT_by_id_def)
  have t: "map_of req_body ''task'' = None \<longrightarrow> task (UPDATE_row ?p1 ?p2 r) = task r"
    by (simp add: UPDATE_row_def)
  have c: "map_of req_body ''completed'' = None \<longrightarrow>
           completed (UPDATE_row ?p1 ?p2 r) = completed r"
    by (simp add: UPDATE_row_def)
  from st g t c show ?thesis by simp
qed

text \<open>
  Two updates of the one row of \<open>sample_db\<close>: with only \<^verbatim>\<open>completed\<close> the task stays
  \<^verbatim>\<open>buy milk\<close>, with only \<^verbatim>\<open>task\<close> the completed value stays 0.
\<close>

theorem put_omitted_field_unchanged_witness:
  "getTodoById sample_db (Number_of (path_id 1)) = Inr (Some sample_row) \<and>
   (\<exists>r'. getTodoById (snd (app_put_todos_id sample_db (path_id 1) [(''completed'', JBool True)]))
            (Number_of (path_id 1)) = Inr (Some r') \<and> task r' = ''buy milk'') \<and>
   (\<exists>r'. getTodoById (snd (app_put_todos_id sample_db (path_id 1) [(''task'', JStr ''walk'')]))
            (Number_of (path_id 1)) = Inr (Some r') \<and> completed r' = SInt 0)"
proof -
  have h: "getTodoById sample_db (Number_of (path_id 1)) = Inr (Some sample_row)"
    by (simp add: getTodoById_def SELECT_by_id_def sample_db_def sample_row_def path_id_def
        WHERE_id_def)
  from put_omitted_field_unchanged [OF h, of "[(''completed'', JBool True)]"]
    put_omitted_field_unchanged [OF h, of "[(''task'', JStr ''walk'')]"] h
  show ?thesis by (simp add: sample_row_def)
qed

subsection \<open>C2: add, then get by the returned id\<close>

text \<open>
  C2.  The claim: for every non-empty task text \<open>T\<close>, add with \<open>T\<close> and then get with the
  id that add returned yield a task whose \<^verbatim>\<open>task\<close> field is \<open>T\<close> and whose \<^verbatim>\<open>completed\<close>
  field is \<^verbatim>\<open>false\<close>.  The service breaks the second half.  On the empty store,
  \<^verbatim>\<open>POST /todos\<close> with \<^verbatim>\<open>{task: 'buy milk'}\<close> answers with id 1 and \<^verbatim>\<open>completed: false\<close>;
  \<^verbatim>\<open>GET /todos/1\<close> then has the task text \<^verbatim>\<open>buy milk\<close>, but its \<^verbatim>\<open>completed\<close> field is
  the number 0, not \<^verbatim>\<open>false\<close>: \<^verbatim>\<open>getTodoById\<close> hands the stored integer back unconverted,
  against its declared type (\<^verbatim>\<open>Todo\<close>, with \<^verbatim>\<open>completed: boolean\<close>) and against the 201
  body of the same row.  By \<open>post_then_get_row\<close> it is so for every \<open>T\<close> and every store.
\<close>

theorem get_after_add_completed_not_false:
  "data_field (fst (app_post_todos empty_db ''2024-01-01 00:00:00'' ''2024-01-01T00:00:00.000Z''
        [(''task'', JStr ''buy milk'')])) ''id'' = Some (JNum 1) \<and>
   data_field (fst (app_post_todos empty_db ''2024-01-01 00:00:00'' ''2024-01-01T00:00:00.000Z''
        [(''task'', JStr ''buy milk'')])) ''completed'' = Some (JBool False) \<and>
   data_field (app_get_todos_id
      (snd (app_post_todos empty_db ''2024-01-01 00:00:00'' ''2024-01-01T00:00:00.000Z''
             [(''task'', JStr ''buy milk'')])) (path_id 1)) ''task'' = Some (JStr ''buy milk'') \<and>
   data_field (app_get_todos_id
      (snd (app_post_todos empty_db ''2024-01-01 00:00:00'' ''2024-01-01T00:00:00.000Z''
             [(''task'', JStr ''buy milk'')])) (path_id 1)) ''completed'' = Some (JNum 0) \<and>
   data_field (app_get_todos_id
      (snd (app_post_todos empty_db ''2024-01-01 00:00:00'' ''2024-01-01T00:00:00.000Z''
             [(''task'', JStr ''buy milk'')])) (path_id 1)) ''completed'' \<noteq> Some (JBool False)"
  by code_simp

subsection \<open>C3: update and delete of an id that has no row\<close>

text \<open>
  C3.  When no row has the id of the request, \<^verbatim>\<open>PUT /todos/:id\<close> and
  \<^verbatim>\<open>DELETE /todos/:id\<close> both answer 404 and the database after the request is the
  database before it.  (An id that is not an integer matches no row either.)
\<close>

theorem missing_id_not_found:
  assumes "\<not> (\<exists>r \<in> set (rows d). Number_of p = Some (id_col r))"
  shows "status (fst (app_put_todos_id d p req_body)) = 404 \<and>
         snd (app_put_todos_id d p req_body) = d \<and>
         status (fst (app_delete_todos_id d p)) = 404 \<and>
         snd (app_delete_todos_id d p) = d"
  using assms
  by (simp add: app_put_todos_id_def app_delete_todos_id_def updateTodo_def deleteTodo_def
      UPDATE_todos_def DELETE_todos_def no_match_filter no_match_map no_match_keep
      res_status_json_def)

theorem missing_id_not_found_witness:
  "status (fst (app_put_todos_id sample_db (path_id 7) [(''completed'', JBool True)])) = 404 \<and>
   snd (app_put_todos_id sample_db (path_id 7) [(''completed'', JBool True)]) = sample_db \<and>
   status (fst (app_delete_todos_id sample_db (path_id 7))) = 404 \<and>
   snd (app_delete_todos_id sample_db (path_id 7)) = sample_db"
  using missing_id_not_found [of sample_db "path_id 7" "[(''completed'', JBool True)]"]
  by (simp add: sample_db_def sample_row_def path_id_def)

subsection \<open>C4: how the adapter surfaces a failed request\<close>

text \<open>
  C4, as amended.  In the update and delete tools a response that is not 2xx throws a
  failure whose message holds the status code and the status text, \<^verbatim>\<open>Bad response\<close> when
  the status is 500 or more and \<^verbatim>\<open>Bad request\<close> otherwise (so for 400 to 499).  The
  list, get and add tools check no status, and none of them ever throws such a classified
  failure: whatever the status, a body that is not JSON surfaces as a parse failure
  (\<^verbatim>\<open>SyntaxError\<close>), and a JSON object without a \<^verbatim>\<open>data\<close> field surfaces as a
  \<^verbatim>\<open>TypeError\<close>.  The latter is what every response of the service that is not 2xx gives
  in the get and add tools.
\<close>

theorem adapter_failures:
  "(\<not> ok r \<longrightarrow>
      update_result r =
        Inl (Failure ((if 500 \<le> status r then ''Bad response'' else ''Bad request'') @
               '' - '' @ String_nat (status r) @ '' - '' @ statusText r)) \<and>
      delete_result r =
        Inl (Failure ((if 500 \<le> status r then ''Bad response'' else ''Bad request'') @
               '' - '' @ String_nat (status r) @ '' - '' @ statusText r))) \<and>
   list_result r \<noteq> Inl (Failure m) \<and> get_result i r \<noteq> Inl (Failure m) \<and>
   add_result t r \<noteq> Inl (Failure m) \<and>
   (body r = Plain s \<longrightarrow>
      list_result r = Inl SyntaxError \<and> get_result i r = Inl SyntaxError \<and>
      add_result t r = Inl SyntaxError) \<and>
   (body r = Json (JObj kvs) \<and> map_of kvs ''data'' = None \<longrightarrow>
      list_result r = Inl TypeError \<and> get_result i r = Inl TypeError \<and>
      add_result t r = Inl TypeError) \<and>
   (\<not> ok (app_get_todos_id d (path_id i)) \<longrightarrow> get_tool d i = Inl TypeError) \<and>
   (\<not> ok (fst (app_post_todos d now stamp (stringify_obj [(''task'', Some (JStr t))]))) \<longrightarrow>
      fst (add_tool d now stamp t) = Inl TypeError)"
  using update_delete_classified [of r] list_result_not_Failure [of r m]
    get_result_not_Failure [of i r m] add_result_not_Failure [of t r m]
    plain_body_SyntaxError [of r s i t] no_data_TypeError [of r kvs i t]
    get_tool_not_ok [of d i] add_tool_not_ok [of d now stamp t]
  by blast

text \<open>
  A 503 with a plain-text body: classified by update and delete, a parse failure in list;
  and the add tool with an empty task, which the service answers 400.
\<close>

theorem adapter_failures_witness:
  "\<not> ok unavailable \<and>
   update_result unavailable = Inl (Failure ''Bad response - 503 - Service Unavailable'') \<and>
   delete_result unavailable = Inl (Failure ''Bad response - 503 - Service Unavailable'') \<and>
   list_result unavailable = Inl SyntaxError \<and>
   \<not> ok (fst (app_post_todos empty_db ''2024-01-01 00:00:00'' ''2024-01-01T00:00:00.000Z''
              (stringify_obj [(''task'', Some (JStr []))]))) \<and>
   fst (add_tool empty_db ''2024-01-01 00:00:00'' ''2024-01-01T00:00:00.000Z'' []) =
     Inl TypeError"
proof -
  have n: "\<not> ok unavailable" by (simp add: ok_def unavailable_def)
  have b: "body unavailable = Plain ''no healthy upstream''" by (simp add: unavailable_def)
  have c: "String_nat 503 = ''503''" by code_simp
  have p: "\<not> ok (fst (app_post_todos empty_db ''2024-01-01 00:00:00''
                       ''2024-01-01T00:00:00.000Z'' (stringify_obj [(''task'', Some (JStr []))])))"
    by (simp add: app_post_todos_def ok_def res_status_json_def)
  from adapter_failures [where r = unavailable and s = "''no healthy upstream''"
      and d = empty_db and now = "''2024-01-01 00:00:00''"
      and stamp = "''2024-01-01T00:00:00.000Z''" and t = "[]"] n b p
  show ?thesis by (simp add: unavailable_def c)
qed

text \<open>
  The claim as first stated has every response that is not 2xx surface as a parse failure
  in the list, get and add tools.  The get tool on an id that has no row receives the
  service's 404, whose body is JSON, and throws a \<^verbatim>\<open>TypeError\<close>, not a parse failure.
\<close>

theorem get_tool_not_found_is_TypeError:
  "\<not> ok (app_get_todos_id empty_db (path_id 1)) \<and>
   get_tool empty_db 1 = Inl TypeError \<and>
   get_tool empty_db 1 \<noteq> Inl SyntaxError"
  by code_simp

subsection \<open>C5: the update tool with an empty task text\<close>

text \<open>
  C5.  The update tool called with the empty string as \<^verbatim>\<open>task\<close> does exactly what it
  does with no \<^verbatim>\<open>task\<close> at all (same result, same database), and the database it leaves
  differs from the one before only in the \<^verbatim>\<open>completed\<close> column of the row with that id,
  which holds the supplied value (1 for true, 0 for false) when one was supplied: the
  task text is unchanged.
\<close>

theorem update_tool_empty_task:
  "update_tool d i (Some []) c = update_tool d i None c \<and>
   rows (snd (update_tool d i (Some []) c)) =
     map (\<lambda>r. if id_col r = i
               then r\<lparr>completed := (case c of None \<Rightarrow> completed r
                                     | Some b \<Rightarrow> SInt (if b then 1 else 0))\<rparr>
               else r) (rows d)"
proof
  show "update_tool d i (Some []) c = update_tool d i None c"
    by (simp add: update_tool_def update_body_empty)
next
  have b: "update_body (Some []) c =
      (''task'', JNull) # (case c of None \<Rightarrow> [] | Some b \<Rightarrow> [(''completed'', JBool b)])"
    by (cases c) (simp_all add: update_body_def)
  have "snd (update_tool d i (Some []) c) =
      snd (app_put_todos_id d (path_id i) (update_body (Some []) c))"
    by (simp add: update_tool_def split: prod.splits)
  then have "snd (update_tool d i (Some []) c) =
     d\<lparr>rows := map (\<lambda>r. if WHERE_id (Some i) r
        then UPDATE_row SNull (BindParameter (map_option JBool c)) r else r) (rows d)\<rparr>"
    unfolding snd_app_put_todos_id b
    by (cases c) (simp_all add: path_id_def)
  then show "rows (snd (update_tool d i (Some []) c)) =
     map (\<lambda>r. if id_col r = i
               then r\<lparr>completed := (case c of None \<Rightarrow> completed r
                                     | Some b \<Rightarrow> SInt (if b then 1 else 0))\<rparr>
               else r) (rows d)"
    by (cases c) (simp_all add: WHERE_id_Some UPDATE_row_def)
qed

theorem update_tool_empty_task_witness:
  "rows (snd (update_tool sample_db 1 (Some []) (Some True))) =
     [\<lparr>id_col = 1, task = ''buy milk'', completed = SInt 1,
       created_at = ''2024-01-01 00:00:00''\<rparr>]"
  using update_tool_empty_task [of sample_db 1 "Some True", THEN conjunct2]
  by (simp add: sample_db_def sample_row_def)

subsection \<open>C6: create without a task\<close>

text \<open>
  C6.  A \<^verbatim>\<open>POST /todos\<close> whose body has no \<^verbatim>\<open>task\<close> field, or the empty string as its
  \<^verbatim>\<open>task\<close>, is answered 400 and leaves the database as it was: no row is created.
\<close>

theorem post_without_task_rejected:
  assumes "map_of req_body ''task'' = None \<or> map_of req_body ''task'' = Some (JStr [])"
  shows "status (fst (app_post_todos d now stamp req_body)) = 400 \<and>
         snd (app_post_todos d now stamp req_body) = d"
  using assms by (auto simp: app_post_todos_def res_status_json_def)

theorem post_without_task_rejected_witness:
  "status (fst (app_post_todos sample_db ''2024-01-01 00:00:00'' ''2024-01-01T00:00:00.000Z''
                  [(''task'', JStr [])])) = 400 \<and>
   snd (app_post_todos sample_db ''2024-01-01 00:00:00'' ''2024-01-01T00:00:00.000Z''
          [(''task'', JStr [])]) = sample_db"
  using post_without_task_rejected [of "[(''task'', JStr [])]" sample_db
      "''2024-01-01 00:00:00''" "''2024-01-01T00:00:00.000Z''"]
  by simp

subsection \<open>C7: deleting the same id twice\<close>

text \<open>
  C7, as amended.  For an id that has a row (ids being unique, as the primary key has
  them), the first \<^verbatim>\<open>DELETE /todos/:id\<close> answers 200 with \<^verbatim>\<open>changes\<close> equal to 1 in the
  response.  The second answers 404, leaves the database as the first left it, and its
  response carries only a message: it has no \<^verbatim>\<open>changes\<close> field.
\<close>

theorem delete_twice:
  assumes "primary_key d" and "Number_of p = Some i" and "i \<in> id_col ` set (rows d)"
  shows "fst (app_delete_todos_id d p) =
           res_json (JObj [(''message'', JStr ''deleted''), (''changes'', JNum 1)]) \<and>
         status (fst (app_delete_todos_id d p)) = 200 \<and>
         fst (app_delete_todos_id (snd (app_delete_todos_id d p)) p) =
           res_status_json 404
             (JObj [(''message'', JStr (''No to-do found with ID '' @ raw p))]) \<and>
         status (fst (app_delete_todos_id (snd (app_delete_todos_id d p)) p)) = 404 \<and>
         body_field (fst (app_delete_todos_id (snd (app_delete_todos_id d p)) p)) ''changes'' =
           None \<and>
         snd (app_delete_todos_id (snd (app_delete_todos_id d p)) p) =
           snd (app_delete_todos_id d p)"
proof -
  from assms have one: "length (filter (WHERE_id (Number_of p)) (rows d)) = 1"
    by (simp add: primary_key_def distinct_filter_one)
  have first: "app_delete_todos_id d p =
      (res_json (JObj [(''message'', JStr ''deleted''), (''changes'', JNum 1)]),
       d\<lparr>rows := filter (\<lambda>r. \<not> WHERE_id (Number_of p) r) (rows d)\<rparr>)"
    using one by (simp add: app_delete_todos_id_def deleteTodo_def DELETE_todos_def)
  have second:
    "app_delete_todos_id (d\<lparr>rows := filter (\<lambda>r. \<not> WHERE_id (Number_of p) r) (rows d)\<rparr>) p =
      (res_status_json 404 (JObj [(''message'', JStr (''No to-do found with ID '' @ raw p))]),
       d\<lparr>rows := filter (\<lambda>r. \<not> WHERE_id (Number_of p) r) (rows d)\<rparr>)"
    by (simp add: app_delete_todos_id_def deleteTodo_def DELETE_todos_def filter_then_no_match)
  show ?thesis
    unfolding first second fst_conv snd_conv
    by (simp add: res_json_def res_status_json_def body_field_def)
qed

theorem delete_twice_witness:
  "primary_key sample_db \<and> 1 \<in> id_col ` set (rows sample_db) \<and>
   body_field (fst (app_delete_todos_id sample_db (path_id 1))) ''changes'' = Some (JNum 1) \<and>
   status (fst (app_delete_todos_id sample_db (path_id 1))) = 200 \<and>
   status (fst (app_delete_todos_id (snd (app_delete_todos_id sample_db (path_id 1)))
                  (path_id 1))) = 404 \<and>
   body_field (fst (app_delete_todos_id (snd (app_delete_todos_id sample_db (path_id 1)))
                      (path_id 1))) ''changes'' = None"
proof -
  have k: "primary_key sample_db" by (simp add: primary_key_def sample_db_def)
  have n: "Number_of (path_id 1) = Some 1" by (simp add: path_id_def)
  have m: "1 \<in> id_col ` set (rows sample_db)" by (simp add: sample_db_def sample_row_def)
  from delete_twice [OF k n m] k m
  show ?thesis by (simp add: res_json_def res_status_json_def body_field_def)
qed

text \<open>
  The claim as first stated has \<^verbatim>\<open>changes\<close> equal to 0 in the second response.  Deleting
  id 1 of \<open>sample_db\<close> twice, the second response is a 404 whose \<^verbatim>\<open>changes\<close> field is not
  0: the body is \<^verbatim>\<open>{message: 'No to-do found with ID 1'}\<close> and nothing else.
\<close>

theorem second_delete_has_no_changes:
  "status (fst (app_delete_todos_id (snd (app_delete_todos_id sample_db (path_id 1)))
                  (path_id 1))) = 404 \<and>
   body (fst (app_delete_todos_id (snd (app_delete_todos_id sample_db (path_id 1)))
                (path_id 1))) = Json (JObj [(''message'', JStr ''No to-do found with ID 1'')]) \<and>
   body_field (fst (app_delete_todos_id (snd (app_delete_todos_id sample_db (path_id 1)))
                      (path_id 1))) ''changes'' \<noteq> Some (JNum 0)"
  by code_simp

subsection \<open>C8: what the list tool returns\<close>

text \<open>
  C8, as amended.  For every database the list tool returns the text
  \<^verbatim>\<open>Found N items\<close>, \<open>N\<close> the number of rows, followed by exactly one link per row, in
  the order of \<^verbatim>\<open>GET /todos\<close>: its uri is \<^verbatim>\<open>todo://item/<id>\<close>, its name is the id, and its
  description is the JSON text of the task text, that is the task text between double
  quotes with JSON's escapes, which is never the task text itself.  On the empty store
  the result is the one text \<^verbatim>\<open>Found 0 items\<close> and no link.
\<close>

theorem list_tool_links:
  "(\<exists>rs. getAllTodos d = Inr rs \<and> mset rs = mset (rows d) \<and>
      list_tool d =
        Inr (Text_content (''Found '' @ String_nat (length (rows d)) @ '' items'') #
             map (\<lambda>r. Resource_link (''todo://item/'' @ String_int (id_col r))
                         (String_int (id_col r)) (Some (JStr (quote (task r))))) rs)) \<and>
   quote (task x) \<noteq> task x \<and>
   list_tool empty_db = Inr [Text_content ''Found 0 items'']"
proof -
  have z: "String_nat 0 = ''0''" by code_simp
  have "list_tool empty_db = Inr [Text_content ''Found 0 items'']"
    unfolding list_tool_eq by (simp add: empty_db_def z)
  moreover have "getAllTodos d = Inr (rev (sort_key created_at (rev (rows d))))"
    by (simp add: getAllTodos_def SELECT_all_def)
  moreover have "mset (rev (sort_key created_at (rev (rows d)))) = mset (rows d)" by simp
  moreover note list_tool_eq [of d] quote_neq [of "task x"]
  ultimately show ?thesis by blast
qed

text \<open>
  The claim as first stated has the description equal to the task text.  On \<open>sample_db\<close>
  the one link's description is \<^verbatim>\<open>"buy milk"\<close> with its quotes, so the result is not the
  one the claim describes.
\<close>

theorem list_description_is_quoted:
  "list_tool sample_db =
     Inr [Text_content ''Found 1 items'',
          Resource_link ''todo://item/1'' ''1''
            (Some (JStr (CHR 0x22 # ''buy milk'' @ [CHR 0x22])))] \<and>
   list_tool sample_db \<noteq>
     Inr [Text_content ''Found 1 items'',
          Resource_link ''todo://item/1'' ''1'' (Some (JStr ''buy milk''))]"
  by code_simp

subsection \<open>C9: the 201 response is made from the request\<close>

text \<open>
  C9.  A \<^verbatim>\<open>POST /todos\<close> whose body (an object, its keys distinct) has a truthy \<^verbatim>\<open>task\<close>
  answers 201, and the \<^verbatim>\<open>data\<close> of the response is built from the request, not read back:
  its \<^verbatim>\<open>id\<close> is the body's \<^verbatim>\<open>id\<close> when the body has one, and the new row's id only
  otherwise; its \<^verbatim>\<open>created_at\<close> is the service's own ISO time stamp, while the row that
  was stored has the new row id and the store's \<^verbatim>\<open>CURRENT_TIMESTAMP\<close>.  So the 201 data
  need not be the row that \<^verbatim>\<open>GET /todos/:id\<close> returns next: after adding \<^verbatim>\<open>buy milk\<close> to
  the empty store the two differ.
\<close>

theorem post_response_synthesized:
  assumes "truthy (map_of req_body ''task'')" and "distinct (map fst req_body)"
  shows "status (fst (app_post_todos d now stamp req_body)) = 201 \<and>
         data_field (fst (app_post_todos d now stamp req_body)) ''id'' =
           Some (case map_of req_body ''id'' of Some v \<Rightarrow> v | None \<Rightarrow> JNum (next_rowid d)) \<and>
         data_field (fst (app_post_todos d now stamp req_body)) ''created_at'' =
           Some (JStr stamp) \<and>
         (\<exists>r. getTodoById (snd (app_post_todos d now stamp req_body)) (Some (next_rowid d)) =
                 Inr (Some r) \<and>
               id_col r = next_rowid d \<and> created_at r = now) \<and>
         body_field (fst (app_post_todos empty_db ''2024-01-01 00:00:00''
                            ''2024-01-01T00:00:00.000Z'' [(''task'', JStr ''buy milk'')]))
           ''data'' \<noteq>
         body_field (app_get_todos_id
                       (snd (app_post_todos empty_db ''2024-01-01 00:00:00''
                               ''2024-01-01T00:00:00.000Z'' [(''task'', JStr ''buy milk'')]))
                       (path_id 1)) ''data''"
proof -
  from createTodo_truthy [OF assms(1), of d now stamp] obtain t where
    c: "createTodo d now stamp req_body =
     (Inr (set_prop (set_prop (spread [(''id'', JNum (next_rowid d))] req_body) ''completed''
             (nullish (map_of req_body ''completed'') (JBool False)))
             ''created_at'' (JStr stamp)),
      \<lparr>rows = rows d @
         [\<lparr>id_col = next_rowid d, task = t,
           completed = numeric_affinity
             (BindParameter (Some (nullish (map_of req_body ''completed'') (JBool False)))),
           created_at = now\<rparr>],
       seq = next_rowid d\<rparr>)" ..
  have p: "app_post_todos d now stamp req_body =
     (res_status_json 201 (JObj [(''message'', JStr ''success''),
        (''data'', JObj (set_prop (set_prop (spread [(''id'', JNum (next_rowid d))] req_body)
             ''completed'' (nullish (map_of req_body ''completed'') (JBool False)))
             ''created_at'' (JStr stamp)))]),
      \<lparr>rows = rows d @
         [\<lparr>id_col = next_rowid d, task = t,
           completed = numeric_affinity
             (BindParameter (Some (nullish (map_of req_body ''completed'') (JBool False)))),
           created_at = now\<rparr>],
       seq = next_rowid d\<rparr>)"
    using assms(1) by (simp add: app_post_todos_def c)
  have s: "status (fst (app_post_todos d now stamp req_body)) = 201"
    unfolding p by (simp add: res_status_json_def)
  have i: "data_field (fst (app_post_todos d now stamp req_body)) ''id'' =
           Some (case map_of req_body ''id'' of Some v \<Rightarrow> v | None \<Rightarrow> JNum (next_rowid d))"
    unfolding p
    by (simp add: res_status_json_def data_field_def body_field_def map_of_set_prop
        map_of_spread [OF assms(2)] split: option.splits)
  have a: "data_field (fst (app_post_todos d now stamp req_body)) ''created_at'' =
           Some (JStr stamp)"
    unfolding p
    by (simp add: res_status_json_def data_field_def body_field_def map_of_set_prop)
  have g: "\<exists>r. getTodoById (snd (app_post_todos d now stamp req_body)) (Some (next_rowid d)) =
                 Inr (Some r) \<and> id_col r = next_rowid d \<and> created_at r = now"
    unfolding p by (simp add: getTodoById_def SELECT_by_id_def find_new_row)
  have e: "body_field (fst (app_post_todos empty_db ''2024-01-01 00:00:00''
                              ''2024-01-01T00:00:00.000Z'' [(''task'', JStr ''buy milk'')]))
             ''data'' \<noteq>
           body_field (app_get_todos_id
                         (snd (app_post_todos empty_db ''2024-01-01 00:00:00''
                                 ''2024-01-01T00:00:00.000Z'' [(''task'', JStr ''buy milk'')]))
                         (path_id 1)) ''data''"
    by code_simp
  from s i a g e show ?thesis by simp
qed

text \<open>
  A body with \<^verbatim>\<open>id: 99\<close> sent to \<open>sample_db\<close>: the response says 99, the row stored has
  id 2.
\<close>

theorem post_response_synthesized_witness:
  "data_field (fst (app_post_todos sample_db ''2024-01-02 10:00:00'' ''2024-01-02T10:00:00.123Z''
       [(''task'', JStr ''walk''), (''id'', JNum 99)])) ''id'' = Some (JNum 99) \<and>
   data_field (fst (app_post_todos sample_db ''2024-01-02 10:00:00'' ''2024-01-02T10:00:00.123Z''
       [(''task'', JStr ''walk''), (''id'', JNum 99)])) ''created_at'' =
     Some (JStr ''2024-01-02T10:00:00.123Z'') \<and>
   (\<exists>r. getTodoById (snd (app_post_todos sample_db ''2024-01-02 10:00:00''
            ''2024-01-02T10:00:00.123Z'' [(''task'', JStr ''walk''), (''id'', JNum 99)]))
           (Some 2) = Inr (Some r) \<and>
         id_col r = 2 \<and> created_at r = ''2024-01-02 10:00:00'')"
proof -
  have t: "truthy (map_of [(''task'', JStr ''walk''), (''id'', JNum 99)] ''task'')" by simp
  have k: "distinct (map fst [(''task'', JStr ''walk''), (''id'', JNum (99::int))])" by simp
  have n: "next_rowid sample_db = 2" by (simp add: next_rowid_def sample_db_def sample_row_def)
  from post_response_synthesized [OF t k, of sample_db "''2024-01-02 10:00:00''"
      "''2024-01-02T10:00:00.123Z''"]
  show ?thesis unfolding n by simp
qed

subsection \<open>C10: the order of the list\<close>

text \<open>
  C10.  For every database \<^verbatim>\<open>GET /todos\<close> answers with all the rows, each once, ordered by
  \<^verbatim>\<open>created_at\<close> descending (as texts, byte by byte, which for time stamps of the form
  \<^verbatim>\<open>YYYY-MM-DD HH:MM:SS\<close> is newest first); the list tool gives its links in that same
  order, and the resource \<^verbatim>\<open>todo://all\<close> is the JSON text of that same response.
\<close>

theorem get_todos_newest_first:
  "\<exists>rs. getAllTodos d = Inr rs \<and> mset rs = mset (rows d) \<and>
     sorted_wrt (\<lambda>a b. created_at a \<ge> created_at b) rs \<and>
     app_get_todos d =
       res_json (JObj [(''message'', JStr ''success''), (''data'', JArr (map row_json rs))]) \<and>
     list_tool d =
       Inr (Text_content (''Found '' @ String_nat (length (rows d)) @ '' items'') #
            map (\<lambda>r. Resource_link (''todo://item/'' @ String_int (id_col r))
                        (String_int (id_col r)) (Some (JStr (quote (task r))))) rs) \<and>
     resource_all d =
       Inr (JSON_stringify
              (JObj [(''message'', JStr ''success''), (''data'', JArr (map row_json rs))]))"
proof -
  let ?rs = "rev (sort_key created_at (rev (rows d)))"
  have "sorted (map created_at (sort_key created_at (rev (rows d))))"
    by (rule sorted_sort_key)
  then have s: "sorted_wrt (\<lambda>a b. created_at a \<ge> created_at b) ?rs"
    by (simp add: sorted_map sorted_wrt_rev)
  have g: "getAllTodos d = Inr ?rs" by (simp add: getAllTodos_def SELECT_all_def)
  have m: "mset ?rs = mset (rows d)" by simp
  have r: "resource_all d = Inr (JSON_stringify
              (JObj [(''message'', JStr ''success''), (''data'', JArr (map row_json ?rs))]))"
    unfolding resource_all_def app_get_todos_eq
    by (simp add: parse_body_def res_json_def res_status_json_def)
  from g m s app_get_todos_eq [of d] list_tool_eq [of d] r
  show ?thesis by blast
qed

text \<open>On \<open>two_db\<close>, whose second row is the later one, that row comes first.\<close>

theorem get_todos_newest_first_witness:
  "getAllTodos two_db = Inr [later_row, sample_row] \<and>
   sorted_wrt (\<lambda>a b. created_at a \<ge> created_at b) [later_row, sample_row] \<and>
   app_get_todos two_db =
     res_json (JObj [(''message'', JStr ''success''),
                     (''data'', JArr [row_json later_row, row_json sample_row])])"
proof -
  have e: "getAllTodos two_db = Inr [later_row, sample_row]" by code_simp
  from get_todos_newest_first [of two_db] e
  show ?thesis by auto
qed

end
